theory Spec2Isabelle
  imports Complex_Main "HOL-Library.AList"
begin

section \<open>Numbers\<close>

text \<open>
  The simulation computes with JavaScript numbers.  They are embedded as exact real numbers:
  every quantity of the engine (trait points, energy units, rates,
  elapsed time) is a \<^typ>\<open>real\<close>, \<open>Math.floor\<close> is \<^const>\<open>floor\<close> and
  \<open>Math.round\<close> rounds halves upwards.  The values returned by \<open>Math.random()\<close>
  are an explicit list of draws that the functions consume from the front.
\<close>

definition math_floor :: "real \<Rightarrow> real" where
  "math_floor v = of_int \<lfloor>v\<rfloor>"

definition math_round :: "real \<Rightarrow> real" where
  "math_round v = of_int \<lfloor>v + 1 / 2\<rfloor>"

definition math_sign :: "real \<Rightarrow> real" where
  "math_sign v = (if 0 < v then 1 else if v < 0 then - 1 else 0)"

section \<open>Dna.ts\<close>

record Dna =
  green :: real
  red :: real
  brown :: real
  yellow :: real
  pink :: real
  blue :: real
  purple :: real

text \<open>The static fields of the class, with their initial values.\<close>

definition TOTAL_POINTS :: real where
  "TOTAL_POINTS = 250"

definition MAX_TRAIT_VALUE :: real where
  "MAX_TRAIT_VALUE = 100"

definition getTotal :: "Dna \<Rightarrow> real" where
  "getTotal d = green d + red d + brown d + yellow d + pink d + blue d + purple d"

text \<open>
  The trait names are the strings \<open>'green'\<close> to \<open>'purple'\<close> in the source.
  \<open>getTraitValue\<close> and \<open>setTraitValue\<close> are called with these seven names only,
  which are the constructors of \<open>TraitName\<close> here.
\<close>

datatype TraitName = Green | Red | Brown | Yellow | Pink | Blue | Purple

fun getTraitValue :: "Dna \<Rightarrow> TraitName \<Rightarrow> real" where
  "getTraitValue d Green = green d"
| "getTraitValue d Red = red d"
| "getTraitValue d Brown = brown d"
| "getTraitValue d Yellow = yellow d"
| "getTraitValue d Pink = pink d"
| "getTraitValue d Blue = blue d"
| "getTraitValue d Purple = purple d"

fun setTraitValue :: "Dna \<Rightarrow> TraitName \<Rightarrow> real \<Rightarrow> Dna" where
  "setTraitValue d Green v = d\<lparr>green := v\<rparr>"
| "setTraitValue d Red v = d\<lparr>red := v\<rparr>"
| "setTraitValue d Brown v = d\<lparr>brown := v\<rparr>"
| "setTraitValue d Yellow v = d\<lparr>yellow := v\<rparr>"
| "setTraitValue d Pink v = d\<lparr>pink := v\<rparr>"
| "setTraitValue d Blue v = d\<lparr>blue := v\<rparr>"
| "setTraitValue d Purple v = d\<lparr>purple := v\<rparr>"

text \<open>
  The loop of \<open>normalize\<close> over the sorted traits.  Its state is the object and the
  local \<open>remaining\<close>; the loop leaves at the first trait it meets with nothing remaining.
\<close>

fun distribute :: "(TraitName \<times> real) list \<Rightarrow> real \<Rightarrow> Dna \<Rightarrow> Dna \<times> real" where
  "distribute [] remaining d = (d, remaining)"
| "distribute (trait # traits) remaining d =
     (if remaining = 0 then (d, remaining)
      else
        let currentValue = getTraitValue d (fst trait);
            availableSpace = MAX_TRAIT_VALUE - currentValue;
            toAdd = min \<bar>remaining\<bar> availableSpace * math_sign remaining
        in distribute traits (remaining - toAdd)
             (setTraitValue d (fst trait) (currentValue + toAdd)))"

definition traitEntries :: "Dna \<Rightarrow> (TraitName \<times> real) list" where
  "traitEntries d =
     [(Green, green d), (Red, red d), (Brown, brown d), (Yellow, yellow d),
      (Pink, pink d), (Blue, blue d), (Purple, purple d)]"

definition scaleTraits :: "real \<Rightarrow> Dna \<Rightarrow> Dna" where
  "scaleTraits scale d =
     \<lparr>green = math_round (green d * scale), red = math_round (red d * scale),
      brown = math_round (brown d * scale), yellow = math_round (yellow d * scale),
      pink = math_round (pink d * scale), blue = math_round (blue d * scale),
      purple = math_round (purple d * scale)\<rparr>"

definition capTraits :: "Dna \<Rightarrow> Dna" where
  "capTraits d =
     \<lparr>green = min (green d) MAX_TRAIT_VALUE, red = min (red d) MAX_TRAIT_VALUE,
      brown = min (brown d) MAX_TRAIT_VALUE, yellow = min (yellow d) MAX_TRAIT_VALUE,
      pink = min (pink d) MAX_TRAIT_VALUE, blue = min (blue d) MAX_TRAIT_VALUE,
      purple = min (purple d) MAX_TRAIT_VALUE\<rparr>"

text \<open>\<open>Array.prototype.sort\<close> is stable, as is insertion sort by the value.\<close>

definition normalize :: "Dna \<Rightarrow> Dna" where
  "normalize d =
     (let total = green d + red d + brown d + yellow d + pink d + blue d + purple d
      in if total = 0 then
           (let perTrait = min (TOTAL_POINTS / 7) MAX_TRAIT_VALUE
            in \<lparr>green = perTrait, red = perTrait, brown = perTrait, yellow = perTrait,
                pink = perTrait, blue = perTrait, purple = perTrait\<rparr>)
         else if total \<noteq> TOTAL_POINTS then
           (let scale = TOTAL_POINTS / total;
                capped = capTraits (scaleTraits scale d);
                cappedTotal = green capped + red capped + brown capped + yellow capped
                              + pink capped + blue capped + purple capped;
                diff = TOTAL_POINTS - cappedTotal
            in if diff \<noteq> 0
               then fst (distribute (sort_key snd (traitEntries capped)) diff capped)
               else capped)
         else d)"

text \<open>The constructor stores its seven arguments and normalizes.\<close>

definition new_Dna :: "real \<Rightarrow> real \<Rightarrow> real \<Rightarrow> real \<Rightarrow> real \<Rightarrow> real \<Rightarrow> real \<Rightarrow> Dna" where
  "new_Dna g r b y p bl pu =
     normalize \<lparr>green = g, red = r, brown = b, yellow = y, pink = p, blue = bl, purple = pu\<rparr>"

definition clone :: "Dna \<Rightarrow> Dna" where
  "clone d = new_Dna (green d) (red d) (brown d) (yellow d) (pink d) (blue d) (purple d)"

text \<open>
  \<open>mutate\<close>.  \<open>random_index\<close> is \<open>Math.floor(Math.random() * 7)\<close> on the next draw,
  \<open>pickTo\<close> the loop that draws the target again until it differs from the source.
  A result \<open>None\<close> means that the supplied draws ran out.
\<close>

definition random_index :: "real \<Rightarrow> nat" where
  "random_index r = nat \<lfloor>r * 7\<rfloor>"

fun pickTo :: "nat \<Rightarrow> real list \<Rightarrow> (nat \<times> real list) option" where
  "pickTo fromIndex [] = None"
| "pickTo fromIndex (r # rs) =
     (if random_index r = fromIndex then pickTo fromIndex rs
      else Some (random_index r, rs))"

fun mutations :: "nat \<Rightarrow> real \<Rightarrow> real list \<Rightarrow> real list \<Rightarrow> real list option" where
  "mutations 0 maxChange traits rs = Some traits"
| "mutations (Suc n) maxChange traits rs =
     (case rs of
        [] \<Rightarrow> None
      | r # rs1 \<Rightarrow>
          (let fromIndex = random_index r
           in case pickTo fromIndex rs1 of
                None \<Rightarrow> None
              | Some (toIndex, rs2) \<Rightarrow>
                  if traits ! toIndex \<ge> MAX_TRAIT_VALUE then mutations n maxChange traits rs2
                  else
                    (case rs2 of
                       [] \<Rightarrow> None
                     | r3 # rs3 \<Rightarrow>
                         (let transferAmount = math_floor (r3 * maxChange) + 1;
                              actualTransfer =
                                min (min transferAmount (traits ! fromIndex))
                                    (MAX_TRAIT_VALUE - traits ! toIndex);
                              traits1 = traits[fromIndex := traits ! fromIndex - actualTransfer];
                              traits2 = traits1[toIndex := traits1 ! toIndex + actualTransfer]
                          in mutations n maxChange traits2 rs3))))"

definition mutate :: "Dna \<Rightarrow> real \<Rightarrow> real list \<Rightarrow> Dna option" where
  "mutate d mutationStrength rs =
     (let maxChange = math_floor (TOTAL_POINTS * mutationStrength);
          traits = [green d, red d, brown d, yellow d, pink d, blue d, purple d]
      in case rs of
           [] \<Rightarrow> None
         | r # rs1 \<Rightarrow>
             (let numMutations = nat \<lfloor>r * 3\<rfloor> + 1
              in case mutations numMutations maxChange traits rs1 of
                   None \<Rightarrow> None
                 | Some t \<Rightarrow>
                     Some (new_Dna (t ! 0) (t ! 1) (t ! 2) (t ! 3) (t ! 4) (t ! 5) (t ! 6))))"

text \<open>Auxiliary notions for the proofs about \<open>normalize\<close> and \<open>mutate\<close>.\<close>

text \<open>The room below the cap that the traits named in a list have left.\<close>

definition space :: "Dna \<Rightarrow> (TraitName \<times> real) list \<Rightarrow> real" where
  "space d ts = (\<Sum>t\<leftarrow>ts. MAX_TRAIT_VALUE - getTraitValue d (fst t))"

text \<open>No two consecutive draws fall on the same trait index.\<close>

fun noRepeat :: "real list \<Rightarrow> bool" where
  "noRepeat (a # b # rs) = (random_index a \<noteq> random_index b \<and> noRepeat (b # rs))"
| "noRepeat rs = True"

section \<open>Energy.ts\<close>

datatype EnergyType = SUN_UNIT | SOIL_UNIT | NUTRITION_UNIT

text \<open>
  An \<open>EnergyWallet\<close> is a \<open>Map<EnergyType, number>\<close>.  The static methods of
  \<open>EnergyWalletHelper\<close> carry the prefix \<open>wallet_\<close>; those that change a wallet
  return the changed wallet together with their result.  An omitted optional
  \<open>maxCapacity\<close> is \<open>None\<close>.
\<close>

type_synonym EnergyWallet = "EnergyType \<rightharpoonup> real"

definition createEmpty :: EnergyWallet where
  "createEmpty = [SUN_UNIT \<mapsto> 0, SOIL_UNIT \<mapsto> 0, NUTRITION_UNIT \<mapsto> 0]"

definition wallet_get :: "EnergyWallet \<Rightarrow> EnergyType \<Rightarrow> real" where
  "wallet_get wallet type = (case wallet type of None \<Rightarrow> 0 | Some amount \<Rightarrow> amount)"

definition wallet_set :: "EnergyWallet \<Rightarrow> EnergyType \<Rightarrow> real \<Rightarrow> EnergyWallet" where
  "wallet_set wallet type amount = wallet(type \<mapsto> max 0 (math_floor amount))"

definition getTotalUnits :: "EnergyWallet \<Rightarrow> real" where
  "getTotalUnits wallet =
     (\<Sum>type\<leftarrow>[SUN_UNIT, SOIL_UNIT, NUTRITION_UNIT].
        case wallet type of None \<Rightarrow> 0 | Some amount \<Rightarrow> amount)"


definition wallet_remove :: "EnergyWallet \<Rightarrow> EnergyType \<Rightarrow> real \<Rightarrow> EnergyWallet \<times> real" where
  "wallet_remove wallet type amount =
     (let current = wallet_get wallet type;
          toRemove = math_floor amount;
          actualRemove = min toRemove current
      in (wallet(type \<mapsto> current - actualRemove), actualRemove))"




section \<open>Fungus.ts\<close>

text \<open>
  The read-only fields of a \<open>Fungus\<close> object.  Every object takes a fresh \<open>id\<close> from the
  static counter \<open>Fungus.nextId\<close>, so the id stands for the object; the one mutable
  field, the map \<open>cells\<close> from position keys to the cells of the organism, is kept in
  the engine state under that id (\<open>fungusCells\<close> below), as the list of its keys in
  insertion order.
\<close>

record Fungus =
  fungus_id :: nat
  dna :: Dna
  generation :: real

text \<open>The constructor returns the new object and the advanced counter.\<close>

definition new_Fungus :: "nat \<Rightarrow> Dna \<Rightarrow> real \<Rightarrow> Fungus \<times> nat" where
  "new_Fungus nextId d g = (\<lparr>fungus_id = nextId, dna = d, generation = g\<rparr>, nextId + 1)"

section \<open>Cell.ts\<close>

text \<open>
  The fields of a \<open>Cell\<close> that the simulation reads.  The per-frame records kept for
  the display (\<open>energyGainedThisFrame\<close>, \<open>energyConsumedThisFrame\<close>, the two breakdowns
  and the four \<open>RateThisFrame\<close> numbers) are written and never read by the engine; they
  are left out, so that \<open>addEnergyFromSource\<close> and \<open>removeEnergyForPurpose\<close> are
  \<open>addEnergy\<close> and \<open>removeEnergy\<close>.
\<close>

record Cell =
  cell_x :: int
  cell_y :: int
  fungus :: Fungus
  energyWallet :: EnergyWallet
  maxEnergyCapacity :: real
  metabolismAccumulator :: real
  soilAbsorptionAccumulator :: real
  photosynthesisAccumulator :: real
  parasitismAccumulator :: real
  alive :: bool
  hasMushroom :: bool
  mushroomGrowth :: real

definition new_Cell :: "int \<Rightarrow> int \<Rightarrow> Fungus \<Rightarrow> real \<Rightarrow> Cell" where
  "new_Cell px py f initialEnergy =
     (let pinkRatio = pink (dna f) / 100;
          capacity = 300 + pinkRatio * 2700;
          initial = min (math_floor initialEnergy) capacity
      in \<lparr>cell_x = px, cell_y = py, fungus = f,
          energyWallet = wallet_set createEmpty NUTRITION_UNIT initial,
          maxEnergyCapacity = capacity,
          metabolismAccumulator = 0, soilAbsorptionAccumulator = 0,
          photosynthesisAccumulator = 0, parasitismAccumulator = 0,
          alive = True, hasMushroom = False, mushroomGrowth = 0\<rparr>)"

definition getEnergy :: "Cell \<Rightarrow> real" where
  "getEnergy c = getTotalUnits (energyWallet c)"

definition getEnergyOfType :: "Cell \<Rightarrow> EnergyType \<Rightarrow> real" where
  "getEnergyOfType c type = wallet_get (energyWallet c) type"


definition die :: "Cell \<Rightarrow> Cell" where
  "die c = c\<lparr>alive := False, energyWallet := createEmpty\<rparr>"

definition removeEnergy :: "Cell \<Rightarrow> real \<Rightarrow> EnergyType \<Rightarrow> Cell \<times> real" where
  "removeEnergy c amount type =
     (let (wallet, actualRemoved) = wallet_remove (energyWallet c) type amount;
          c1 = c\<lparr>energyWallet := wallet\<rparr>
      in (if getEnergy c1 = 0 then die c1 else c1, actualRemoved))"

definition startMushroom :: "Cell \<Rightarrow> Cell" where
  "startMushroom c = c\<lparr>hasMushroom := True, mushroomGrowth := 0\<rparr>"

definition getPositionKey :: "Cell \<Rightarrow> int \<times> int" where
  "getPositionKey c = (cell_x c, cell_y c)"

section \<open>Tile.ts and Garden.ts\<close>

record Tile =
  tileEnergyWallet :: EnergyWallet
  soilEnergyAccumulator :: real
  isEmpty :: bool

record Garden =
  garden_size :: int
  tiles :: "int \<times> int \<Rightarrow> Tile"

definition getTile :: "Garden \<Rightarrow> int \<Rightarrow> int \<Rightarrow> Tile option" where
  "getTile g px py =
     (if px < 0 \<or> px \<ge> garden_size g \<or> py < 0 \<or> py \<ge> garden_size g then None
      else Some (tiles g (px, py)))"

text \<open>Writing \<open>isEmpty\<close> of the tile at a position, when \<open>getTile\<close> finds one there.\<close>

definition markTile :: "Garden \<Rightarrow> int \<Rightarrow> int \<Rightarrow> bool \<Rightarrow> Garden" where
  "markTile g px py e =
     (case getTile g px py of
        None \<Rightarrow> g
      | Some tile \<Rightarrow> g\<lparr>tiles := (tiles g)((px, py) := tile\<lparr>isEmpty := e\<rparr>)\<rparr>)"

section \<open>SimulationEngine.ts\<close>

record Spore =
  spore_x :: int
  spore_y :: int
  spore_dna :: Dna
  lifetime :: real
  parentFungusId :: nat

text \<open>
  The state of the engine and of the objects it reaches.  The two maps of the engine
  are association lists in insertion order; the key of a cell is its position, the
  pair standing for the string \<open>"x,y"\<close>.  A \<open>Cell\<close> object is referred to by the key
  under which \<open>cells\<close> holds it.  \<open>gridSize\<close> is \<open>config.gridSize\<close>, \<open>nextId\<close> the static
  counter of \<open>Fungus\<close> and \<open>fungusCells\<close> the keys of the \<open>cells\<close> map of each
  \<open>Fungus\<close> object.
\<close>

record SimulationEngine =
  fungi :: "(nat \<times> Fungus) list"
  cells :: "((int \<times> int) \<times> Cell) list"
  spores :: "Spore list"
  garden :: Garden
  gridSize :: int
  maxParasitismRate :: real
  expansionEnergyCost :: real
  mushroomEnergyCost :: real
  fungusCells :: "nat \<Rightarrow> (int \<times> int) list"
  nextId :: nat

definition getCellAt :: "SimulationEngine \<Rightarrow> int \<Rightarrow> int \<Rightarrow> Cell option" where
  "getCellAt st px py = map_of (cells st) (px, py)"

definition addCell :: "SimulationEngine \<Rightarrow> Cell \<Rightarrow> SimulationEngine" where
  "addCell st c =
     (let key = getPositionKey c;
          f = fungus_id (fungus c);
          keys = fungusCells st f
      in st\<lparr>cells := AList.update key c (cells st),
             fungusCells := (fungusCells st)(f := (if key \<in> set keys then keys else keys @ [key])),
             garden := markTile (garden st) (cell_x c) (cell_y c) False\<rparr>)"

definition removeCell :: "SimulationEngine \<Rightarrow> Cell \<Rightarrow> SimulationEngine" where
  "removeCell st c =
     (let key = getPositionKey c;
          f = fungus_id (fungus c)
      in st\<lparr>cells := AList.delete key (cells st),
             fungusCells := (fungusCells st)(f := removeAll key (fungusCells st f)),
             garden := markTile (garden st) (cell_x c) (cell_y c) True\<rparr>)"

definition getCellCount :: "SimulationEngine \<Rightarrow> Fungus \<Rightarrow> nat" where
  "getCellCount st f = length (fungusCells st (fungus_id f))"

definition adjacentOffsets :: "(int \<times> int) list" where
  "adjacentOffsets = [(- 1, 0), (1, 0), (0, - 1), (0, 1), (- 1, - 1), (- 1, 1), (1, - 1), (1, 1)]"

definition getAdjacentCells :: "SimulationEngine \<Rightarrow> Cell \<Rightarrow> Cell list" where
  "getAdjacentCells st c =
     concat (map (\<lambda>(dx, dy).
                    case getCellAt st (cell_x c + dx) (cell_y c + dy) of
                      None \<Rightarrow> []
                    | Some neighbor \<Rightarrow> if alive neighbor then [neighbor] else [])
                 adjacentOffsets)"

definition cardinalOffsets :: "(int \<times> int) list" where
  "cardinalOffsets = [(- 1, 0), (1, 0), (0, - 1), (0, 1)]"

definition getEmptyAdjacentPositions :: "SimulationEngine \<Rightarrow> Cell \<Rightarrow> (int \<times> int) list" where
  "getEmptyAdjacentPositions st c =
     concat (map (\<lambda>(dx, dy).
                    let px = cell_x c + dx; py = cell_y c + dy
                    in if px < 0 \<or> py < 0 \<or> px \<ge> gridSize st \<or> py \<ge> gridSize st then []
                       else case getTile (garden st) px py of
                              None \<Rightarrow> []
                            | Some tile \<Rightarrow>
                                if isEmpty tile \<and> getCellAt st px py = None then [(px, py)] else [])
                 cardinalOffsets)"

subsection \<open>Energy conversion\<close>


subsection \<open>Parasitism\<close>

text \<open>
  Writing a changed \<open>Cell\<close> object back under its key.
\<close>

definition putCell :: "SimulationEngine \<Rightarrow> int \<times> int \<Rightarrow> Cell \<Rightarrow> SimulationEngine" where
  "putCell st key c = st\<lparr>cells := AList.update key c (cells st)\<rparr>"







subsection \<open>Expansion and reproduction\<close>

text \<open>
  \<open>attemptExpansion\<close> returns the state, its boolean result and the draws that are left;
  it has no result (\<open>None\<close>) when the draws have run out or a draw outside \<open>[0, 1)\<close>
  indexes past the array of empty positions.
\<close>

definition attemptExpansion ::
  "SimulationEngine \<Rightarrow> int \<times> int \<Rightarrow> real list \<Rightarrow> (SimulationEngine \<times> bool \<times> real list) option"
  where
  "attemptExpansion st key rs =
     (case map_of (cells st) key of
        None \<Rightarrow> Some (st, False, rs)
      | Some c \<Rightarrow>
          (let blueRatio = blue (dna (fungus c)) / 100;
               costMultiplier = 1 - blueRatio * (8 / 10);
               actualCost = math_floor (expansionEnergyCost st * costMultiplier);
               nutritionUnits = getEnergyOfType c NUTRITION_UNIT
           in if nutritionUnits < actualCost then Some (st, False, rs)
              else
                (let emptyPositions = getEmptyAdjacentPositions st c
                 in if length emptyPositions = 0 then Some (st, False, rs)
                    else
                      (case rs of
                         [] \<Rightarrow> None
                       | r # rs1 \<Rightarrow>
                           (let i = \<lfloor>r * real (length emptyPositions)\<rfloor>
                            in if i < 0 \<or> i \<ge> int (length emptyPositions) then None
                               else
                                 (let pos = emptyPositions ! nat i;
                                      st1 = putCell st key
                                              (fst (removeEnergy c actualCost NUTRITION_UNIT));
                                      startingEnergy = math_floor (actualCost * (5 / 10));
                                      newCell = new_Cell (fst pos) (snd pos) (fungus c) startingEnergy
                                  in Some (addCell st1 newCell, True, rs1)))))))"

definition attemptReproduction :: "SimulationEngine \<Rightarrow> int \<times> int \<Rightarrow> SimulationEngine \<times> bool" where
  "attemptReproduction st key =
     (case map_of (cells st) key of
        None \<Rightarrow> (st, False)
      | Some c \<Rightarrow>
          if hasMushroom c then (st, False)
          else
            (let purpleRatio = purple (dna (fungus c)) / 100;
                 costMultiplier = 1 - purpleRatio * (8 / 10);
                 actualCost = math_floor (mushroomEnergyCost st * costMultiplier);
                 nutritionUnits = getEnergyOfType c NUTRITION_UNIT
             in if nutritionUnits < actualCost then (st, False)
                else
                  (putCell st key
                     (startMushroom (fst (removeEnergy c actualCost NUTRITION_UNIT))),
                   True)))"

text \<open>
  The body of the second loop of \<open>update\<close>, for the cell under \<open>key\<close>: the two cost
  thresholds and the two attempts.
\<close>

definition growthStep ::
  "SimulationEngine \<Rightarrow> int \<times> int \<Rightarrow> real list \<Rightarrow> (SimulationEngine \<times> real list) option" where
  "growthStep st key rs =
     (case map_of (cells st) key of
        None \<Rightarrow> Some (st, rs)
      | Some c \<Rightarrow>
          if \<not> alive c then Some (st, rs)
          else
            (let blueRatio = blue (dna (fungus c)) / 100;
                 expansionCostMultiplier = 1 - blueRatio * 1;
                 expansionCost = expansionEnergyCost st * expansionCostMultiplier;
                 purpleRatio = purple (dna (fungus c)) / 100;
                 mushroomCostMultiplier = 1 - purpleRatio * 1;
                 mushroomCost = mushroomEnergyCost st * mushroomCostMultiplier
             in case (if getEnergy c \<ge> expansionCost * (12 / 10)
                      then attemptExpansion st key rs else Some (st, False, rs)) of
                  None \<Rightarrow> None
                | Some (st1, expanded, rs1) \<Rightarrow>
                    (case map_of (cells st1) key of
                       None \<Rightarrow> Some (st1, rs1)
                     | Some c1 \<Rightarrow>
                         if \<not> hasMushroom c1 \<and> getEnergy c1 \<ge> mushroomCost * (12 / 10)
                         then Some (fst (attemptReproduction st1 key), rs1)
                         else Some (st1, rs1))))"

text \<open>The shuffle of \<open>update\<close>, from index \<open>i\<close> downwards, on the keys of the cells.\<close>

fun shuffle :: "nat \<Rightarrow> 'a list \<Rightarrow> real list \<Rightarrow> ('a list \<times> real list) option" where
  "shuffle 0 arr rs = Some (arr, rs)"
| "shuffle (Suc i) arr rs =
     (case rs of
        [] \<Rightarrow> None
      | r # rs1 \<Rightarrow>
          (let j = \<lfloor>r * (real (Suc i) + 1)\<rfloor>
           in if j < 0 \<or> j \<ge> int (length arr) then None
              else shuffle i (arr[Suc i := arr ! nat j, nat j := arr ! Suc i]) rs1))"

fun growthLoop ::
  "SimulationEngine \<Rightarrow> (int \<times> int) list \<Rightarrow> real list \<Rightarrow> (SimulationEngine \<times> real list) option"
  where
  "growthLoop st [] rs = Some (st, rs)"
| "growthLoop st (key # keys) rs =
     (case growthStep st key rs of
        None \<Rightarrow> None
      | Some (st1, rs1) \<Rightarrow> growthLoop st1 keys rs1)"

definition growthPass ::
  "SimulationEngine \<Rightarrow> real list \<Rightarrow> (SimulationEngine \<times> real list) option" where
  "growthPass st rs =
     (let cellsArray = map fst (cells st)
      in case shuffle (length cellsArray - 1) cellsArray rs of
           None \<Rightarrow> None
         | Some (shuffled, rs1) \<Rightarrow> growthLoop st shuffled rs1)"

subsection \<open>Spores\<close>

definition germinateSpore :: "SimulationEngine \<Rightarrow> Spore \<Rightarrow> SimulationEngine" where
  "germinateSpore st spore =
     (let (newFungus, n) = new_Fungus (nextId st) (spore_dna spore) 0;
          st1 = st\<lparr>nextId := n, fungi := AList.update (fungus_id newFungus) newFungus (fungi st)\<rparr>;
          firstCell = new_Cell (spore_x spore) (spore_y spore) newFungus 50
      in addCell st1 firstCell)"

text \<open>
  The loop of \<open>updateSpores\<close>; it carries the state and \<open>remainingSpores\<close>.  The spore is
  changed in place, so the one that is kept has the shortened lifetime.
\<close>

fun sporeLoop ::
  "SimulationEngine \<Rightarrow> real \<Rightarrow> Spore list \<Rightarrow> Spore list \<Rightarrow> SimulationEngine \<times> Spore list" where
  "sporeLoop st deltaTime [] remainingSpores = (st, remainingSpores)"
| "sporeLoop st deltaTime (s # ss) remainingSpores =
     (let spore = s\<lparr>lifetime := lifetime s - deltaTime\<rparr>;
          tile = getTile (garden st) (spore_x spore) (spore_y spore);
          existingCell = getCellAt st (spore_x spore) (spore_y spore)
      in if tile \<noteq> None \<and> existingCell = None \<and> lifetime spore > 0
         then sporeLoop (germinateSpore st spore) deltaTime ss remainingSpores
         else if lifetime spore > 0
         then sporeLoop st deltaTime ss (remainingSpores @ [spore])
         else sporeLoop st deltaTime ss remainingSpores)"

definition updateSpores :: "SimulationEngine \<Rightarrow> real \<Rightarrow> SimulationEngine" where
  "updateSpores st deltaTime =
     (let (st1, remainingSpores) = sporeLoop st deltaTime (spores st) []
      in st1\<lparr>spores := remainingSpores\<rparr>)"

text \<open>A spore cannot germinate where the garden has no tile or a cell sits.\<close>

definition blocked :: "SimulationEngine \<Rightarrow> Spore \<Rightarrow> bool" where
  "blocked st s =
     (getTile (garden st) (spore_x s) (spore_y s) = None
      \<or> getCellAt st (spore_x s) (spore_y s) \<noteq> None)"

text \<open>The spore after its lifetime was shortened by the elapsed time.\<close>

definition aged :: "real \<Rightarrow> Spore \<Rightarrow> Spore" where
  "aged deltaTime s = s\<lparr>lifetime := lifetime s - deltaTime\<rparr>"

subsection \<open>Splitting disconnected fungi\<close>

text \<open>
  The inner loop of the flood fill over the neighbours of one cell: a neighbour whose
  key has not been visited is marked and queued.
\<close>

fun visitNeighbors ::
  "Cell list \<Rightarrow> (int \<times> int) list \<Rightarrow> Cell list \<Rightarrow> (int \<times> int) list \<times> Cell list" where
  "visitNeighbors [] visited queue = (visited, queue)"
| "visitNeighbors (neighbor # neighbors) visited queue =
     (let neighborKey = getPositionKey neighbor
      in if neighborKey \<notin> set visited
         then visitNeighbors neighbors (visited @ [neighborKey]) (queue @ [neighbor])
         else visitNeighbors neighbors visited queue)"

text \<open>The positions of the cells that \<open>cells\<close> holds: every queued cell has one of these.\<close>

definition cellPositions :: "SimulationEngine \<Rightarrow> (int \<times> int) set" where
  "cellPositions st = getPositionKey ` snd ` set (cells st)"

text \<open>
  The \<open>while\<close> loop of the flood fill.  It ends because every cell it queues has a
  position not visited before, and \<open>cells\<close> holds finitely many.
\<close>

function floodFill ::
  "SimulationEngine \<Rightarrow> nat \<Rightarrow> (int \<times> int) list \<Rightarrow> Cell list \<Rightarrow> Cell list
     \<Rightarrow> (int \<times> int) list \<times> Cell list" where
  "floodFill st fid visited [] grp = (visited, grp)"
| "floodFill st fid visited (c # queue) grp =
     (let neighbors = filter (\<lambda>n. fungus_id (fungus n) = fid) (getAdjacentCells st c);
          (visited1, queue1) = visitNeighbors neighbors visited queue
      in floodFill st fid visited1 queue1 (grp @ [c]))"
  by pat_completeness auto
termination
proof (relation "measure (\<lambda>(st, fid, visited, queue, grp).
                    2 * card (cellPositions st - set visited) + length queue)")
  show "wf (measure (\<lambda>(st, fid, visited, queue, grp).
                    2 * card (cellPositions st - set visited) + length queue))"
    by simp
next
  fix st :: SimulationEngine and fid :: nat and visited :: "(int \<times> int) list"
    and c :: Cell and queue grp :: "Cell list" and neighbors xa
    and visited1 :: "(int \<times> int) list" and queue1 :: "Cell list"
  assume n: "neighbors = filter (\<lambda>n. fungus_id (fungus n) = fid) (getAdjacentCells st c)"
    and xa: "xa = visitNeighbors neighbors visited queue"
    and v: "(visited1, queue1) = xa"
  have fin: "finite (cellPositions st)" by (simp add: cellPositions_def)
  have step: "2 * card (cellPositions st - set v1) + length q1
                \<le> 2 * card (cellPositions st - set v0) + length q0"
    if "getPositionKey ` set ns \<subseteq> cellPositions st" and "visitNeighbors ns v0 q0 = (v1, q1)"
    for ns v0 q0 v1 q1
    using that
  proof (induction ns arbitrary: v0 q0)
    case Nil
    then show ?case by simp
  next
    case (Cons a ns)
    show ?case
    proof (cases "getPositionKey a \<in> set v0")
      case True
      then show ?thesis using Cons by simp
    next
      case False
      have "cellPositions st - set (v0 @ [getPositionKey a])
              = (cellPositions st - set v0) - {getPositionKey a}"
        by auto
      moreover have "getPositionKey a \<in> cellPositions st - set v0"
        using Cons.prems(1) False by simp
      ultimately have less: "card (cellPositions st - set (v0 @ [getPositionKey a]))
              < card (cellPositions st - set v0)"
        using fin by (metis card_Diff1_less finite_Diff)
      have "2 * card (cellPositions st - set v1) + length q1
          \<le> 2 * card (cellPositions st - set (v0 @ [getPositionKey a])) + length (q0 @ [a])"
        using Cons.IH[of "v0 @ [getPositionKey a]" "q0 @ [a]"] Cons.prems False by simp
      then show ?thesis using less by simp
    qed
  qed
  have "getPositionKey ` set (getAdjacentCells st c) \<subseteq> cellPositions st"
  proof
    fix k assume "k \<in> getPositionKey ` set (getAdjacentCells st c)"
    then obtain a where a: "a \<in> set (getAdjacentCells st c)" and k: "k = getPositionKey a"
      by auto
    from a obtain px py where "getCellAt st px py = Some a"
      by (auto simp: getAdjacentCells_def split: option.splits if_splits)
    then have "((px, py), a) \<in> set (cells st)"
      by (simp add: getCellAt_def map_of_SomeD)
    then have "a \<in> snd ` set (cells st)" by force
    then show "k \<in> cellPositions st" by (simp add: cellPositions_def k)
  qed
  then have "getPositionKey ` set neighbors \<subseteq> cellPositions st"
    unfolding n by auto
  from step[OF this] xa v
  have "2 * card (cellPositions st - set visited1) + length queue1
      \<le> 2 * card (cellPositions st - set visited) + length queue"
    by simp
  then show "((st, fid, visited1, queue1, grp @ [c]), (st, fid, visited, c # queue, grp))
      \<in> measure (\<lambda>(st, fid, visited, queue, grp).
                    2 * card (cellPositions st - set visited) + length queue)"
    by simp
qed

text \<open>
  The loop over the cells of the organism, each a possible start of a flood fill; it
  carries \<open>visited\<close> and \<open>groups\<close>.
\<close>

fun findGroups ::
  "SimulationEngine \<Rightarrow> nat \<Rightarrow> Cell list \<Rightarrow> (int \<times> int) list \<Rightarrow> Cell list list
     \<Rightarrow> Cell list list" where
  "findGroups st fid [] visited groups = groups"
| "findGroups st fid (startCell # startCells) visited groups =
     (let key = getPositionKey startCell
      in if key \<in> set visited then findGroups st fid startCells visited groups
         else
           (let (visited1, grp) = floodFill st fid (visited @ [key]) [startCell] []
            in findGroups st fid startCells visited1 (groups @ [grp])))"

text \<open>
  The body of the loop over the cells of a group that leaves its organism: the old cell
  is removed, a new one is made from it for the new organism, and the new one is added.
\<close>

definition recreateCell :: "Fungus \<Rightarrow> Cell \<Rightarrow> Cell" where
  "recreateCell newFungus oldCell =
     (let newCell = new_Cell (cell_x oldCell) (cell_y oldCell) newFungus (getEnergy oldCell)
      in if hasMushroom oldCell
         then (startMushroom newCell)\<lparr>mushroomGrowth := mushroomGrowth oldCell\<rparr>
         else newCell)"

definition rehomeCell :: "Fungus \<Rightarrow> Cell \<Rightarrow> SimulationEngine \<Rightarrow> SimulationEngine" where
  "rehomeCell newFungus oldCell st =
     (let st1 = removeCell st oldCell;
          newCell = recreateCell newFungus oldCell
      in addCell st1 newCell)"

text \<open>The body of the loop over the groups after the largest: a new organism for the group.\<close>

definition rehomeGroup :: "Fungus \<Rightarrow> Cell list \<Rightarrow> SimulationEngine \<Rightarrow> SimulationEngine" where
  "rehomeGroup f grp st =
     (let (newFungus, n) = new_Fungus (nextId st) (clone (dna f)) (generation f);
          st1 = st\<lparr>nextId := n, fungi := AList.update (fungus_id newFungus) newFungus (fungi st)\<rparr>
      in fold (rehomeCell newFungus) grp st1)"

text \<open>
  The body of the loop over the organisms.  \<open>sort\<close> with \<open>b.length - a.length\<close> is a
  stable sort by descending length.
\<close>

definition splitFungus :: "SimulationEngine \<Rightarrow> Fungus \<Rightarrow> SimulationEngine" where
  "splitFungus st f =
     (let fungusCells = filter (\<lambda>c. fungus_id (fungus c) = fungus_id f) (map snd (cells st))
      in if length fungusCells \<le> 1 then st
         else
           (let groups = findGroups st (fungus_id f) fungusCells [] []
            in if length groups > 1
               then fold (rehomeGroup f) (tl (sort_key (\<lambda>g. - int (length g)) groups)) st
               else st))"

text \<open>
  The loop over \<open>this.fungi.values()\<close>.  The iterator of a \<open>Map\<close> also reaches the
  entries that are added while it runs, so the loop goes by the index into the growing
  list; no entry is deleted meanwhile.
\<close>

partial_function (option) splitFrom :: "SimulationEngine \<Rightarrow> nat \<Rightarrow> SimulationEngine option" where
  "splitFrom st i =
     (if i < length (fungi st)
      then splitFrom (splitFungus st (snd (fungi st ! i))) (Suc i)
      else Some st)"

declare splitFrom.simps [code]

definition splitDisconnectedFungi :: "SimulationEngine \<Rightarrow> SimulationEngine option" where
  "splitDisconnectedFungi st = splitFrom st 0"

subsection \<open>Creating organisms\<close>

text \<open>\<open>createFungus\<close> returns the state and the new organism, or \<open>null\<close>.\<close>

definition createFungus ::
  "SimulationEngine \<Rightarrow> int \<Rightarrow> int \<Rightarrow> Dna option \<Rightarrow> SimulationEngine \<times> Fungus option" where
  "createFungus st px py d =
     (case getTile (garden st) px py of
        None \<Rightarrow> (st, None)
      | Some tile \<Rightarrow>
          if \<not> isEmpty tile then (st, None)
          else
            (let (f, n) = new_Fungus (nextId st)
                            (case d of None \<Rightarrow> new_Dna 15 10 15 15 15 15 15 | Some d1 \<Rightarrow> d1) 0;
                 st1 = st\<lparr>nextId := n, fungi := AList.update (fungus_id f) f (fungi st)\<rparr>;
                 firstCell = new_Cell px py f 50
             in (addCell st1 firstCell, Some f)))"

text \<open>
  The engine as its constructor leaves it, over a garden of \<open>n\<close> by \<open>n\<close> fresh tiles and
  with the initial values of its public parameters.
\<close>

definition new_Tile :: Tile where
  "new_Tile = \<lparr>tileEnergyWallet = createEmpty, soilEnergyAccumulator = 0, isEmpty = True\<rparr>"

definition new_SimulationEngine :: "int \<Rightarrow> SimulationEngine" where
  "new_SimulationEngine n =
     \<lparr>fungi = [], cells = [], spores = [],
      garden = \<lparr>garden_size = n, tiles = (\<lambda>p. new_Tile)\<rparr>, gridSize = n,
      maxParasitismRate = 10, expansionEnergyCost = 400, mushroomEnergyCost = 500,
      fungusCells = (\<lambda>i. []), nextId = 0\<rparr>"

section \<open>Sample data\<close>

text \<open>Trait vectors, cells and engine states on which the theorems below are run.\<close>

definition blueDna :: Dna where
  "blueDna = \<lparr>green = 50, red = 0, brown = 0, yellow = 0, pink = 0, blue = 100, purple = 100\<rparr>"

definition redDna :: Dna where
  "redDna = \<lparr>green = 50, red = 100, brown = 0, yellow = 0, pink = 0, blue = 0, purple = 100\<rparr>"




definition sampleSpore :: "int \<Rightarrow> int \<Rightarrow> real \<Rightarrow> Spore" where
  "sampleSpore px py t =
     \<lparr>spore_x = px, spore_y = py, spore_dna = redDna, lifetime = t, parentFungusId = 0\<rparr>"

text \<open>One organism with a single cell at (10, 10) on a grid of 20 by 20.\<close>

definition oneCellEngine :: "Dna \<Rightarrow> SimulationEngine" where
  "oneCellEngine d = fst (createFungus (new_SimulationEngine 20) 10 10 (Some d))"

text \<open>
  The one-cell engine with its organism in generation 3 and two spores in the air, the
  first above the occupied tile and the second above a free one.
\<close>

definition sporeEngine :: SimulationEngine where
  "sporeEngine =
     (oneCellEngine blueDna)
       \<lparr>fungi := [(0, \<lparr>fungus_id = 0, dna = blueDna, generation = 3\<rparr>)],
        spores := [sampleSpore 10 10 10, sampleSpore 3 3 10]\<rparr>"





section \<open>Properties of the trait vector\<close>

lemma get_set_trait:
  "getTraitValue (setTraitValue d n v) m = (if m = n then v else getTraitValue d m)"
  by (cases n; cases m) simp_all

lemma total_set_trait:
  "getTotal (setTraitValue d n v) = getTotal d - getTraitValue d n + v"
  by (cases n) (simp_all add: getTotal_def)

lemma space_set_other:
  "n \<notin> fst ` set ts \<Longrightarrow> space (setTraitValue d n v) ts = space d ts"
  unfolding space_def
  by (induction ts) (auto simp: get_set_trait)

lemma distribute_total:
  "getTotal (fst (distribute ts rmn d)) + snd (distribute ts rmn d) = getTotal d + rmn"
proof (induction ts arbitrary: rmn d)
  case Nil
  then show ?case by simp
next
  case (Cons t ts)
  then show ?case
    by (simp add: Let_def total_set_trait)
qed

lemma distribute_remaining:
  "distinct (map fst ts) \<Longrightarrow>
   \<forall>t\<in>set ts. getTraitValue d (fst t) \<le> MAX_TRAIT_VALUE \<Longrightarrow>
   \<bar>rmn\<bar> \<le> space d ts \<Longrightarrow> snd (distribute ts rmn d) = 0"
proof (induction ts arbitrary: rmn d)
  case Nil
  then show ?case by (simp add: space_def)
next
  case (Cons t ts)
  show ?case
  proof (cases "rmn = 0")
    case True
    then show ?thesis by simp
  next
    case False
    define cv where "cv = getTraitValue d (fst t)"
    define toAdd where "toAdd = min \<bar>rmn\<bar> (MAX_TRAIT_VALUE - cv) * math_sign rmn"
    define d' where "d' = setTraitValue d (fst t) (cv + toAdd)"
    have cv: "cv \<le> MAX_TRAIT_VALUE" using Cons.prems(2) by (simp add: cv_def)
    have notin: "fst t \<notin> fst ` set ts" using Cons.prems(1) by auto
    have sp: "space d' ts = space d ts" unfolding d'_def by (rule space_set_other[OF notin])
    have sp2: "space d (t # ts) = (MAX_TRAIT_VALUE - cv) + space d ts"
      by (simp add: space_def cv_def)
    have abs: "\<bar>rmn - toAdd\<bar> = \<bar>rmn\<bar> - min \<bar>rmn\<bar> (MAX_TRAIT_VALUE - cv)"
      using cv False unfolding toAdd_def math_sign_def by (auto simp: min_def abs_if)
    have nn: "0 \<le> space d ts"
      unfolding space_def using Cons.prems(2) by (intro sum_list_nonneg) auto
    have le: "\<bar>rmn - toAdd\<bar> \<le> space d' ts"
      using Cons.prems(3) sp sp2 abs nn by (auto simp: min_def)
    have vals: "\<forall>u\<in>set ts. getTraitValue d' (fst u) \<le> MAX_TRAIT_VALUE"
    proof
      fix u assume u: "u \<in> set ts"
      then have "fst u \<noteq> fst t" using notin by (metis image_eqI)
      then show "getTraitValue d' (fst u) \<le> MAX_TRAIT_VALUE"
        using Cons.prems(2) u unfolding d'_def by (simp add: get_set_trait)
    qed
    have "snd (distribute ts (rmn - toAdd) d') = 0"
      using Cons.IH[OF _ vals le] Cons.prems(1) by simp
    then show ?thesis using False
      by (simp add: Let_def cv_def toAdd_def d'_def)
  qed
qed

lemma sum_insort_key:
  "(\<Sum>t\<leftarrow>insort_key k x xs. f t) = f x + (\<Sum>t\<leftarrow>xs. (f t :: real))"
  by (induction xs) auto

lemma sum_sort_key:
  "(\<Sum>t\<leftarrow>sort_key k xs. f t) = (\<Sum>t\<leftarrow>xs. (f t :: real))"
  by (induction xs) (auto simp: sum_insort_key)

lemma space_sorted: "space d (sort_key k ts) = space d ts"
  unfolding space_def by (rule sum_sort_key)

lemma space_entries: "space d (traitEntries c) = 7 * MAX_TRAIT_VALUE - getTotal d"
  by (simp add: space_def traitEntries_def getTotal_def)

lemma round_le: "math_round v \<le> v + 1 / 2"
  unfolding math_round_def by (rule of_int_floor_le)

lemma capped_le: "getTotal (capTraits d) \<le> getTotal d"
  by (simp add: getTotal_def capTraits_def)

lemma capped_vals: "getTraitValue (capTraits d) n \<le> MAX_TRAIT_VALUE"
  by (cases n) (simp_all add: capTraits_def)

lemma scaled_le:
  "getTotal (scaleTraits s d) \<le> getTotal d * s + 7 / 2"
proof -
  have "getTotal (scaleTraits s d) \<le>
      (green d * s + 1/2) + (red d * s + 1/2) + (brown d * s + 1/2) + (yellow d * s + 1/2)
      + (pink d * s + 1/2) + (blue d * s + 1/2) + (purple d * s + 1/2)"
    unfolding getTotal_def scaleTraits_def Dna.simps
    by (intro add_mono round_le)
  also have "\<dots> = getTotal d * s + 7 / 2"
    by (simp add: getTotal_def algebra_simps)
  finally show ?thesis .
qed

lemma normalize_total: "getTotal (normalize d) = TOTAL_POINTS"
proof -
  define total where "total = getTotal d"
  consider "total = 0" | "total \<noteq> 0" "total = TOTAL_POINTS" | "total \<noteq> 0" "total \<noteq> TOTAL_POINTS"
    by blast
  then show ?thesis
  proof cases
    case 1
    then show ?thesis
      by (simp add: normalize_def total_def getTotal_def Let_def TOTAL_POINTS_def MAX_TRAIT_VALUE_def)
  next
    case 2
    then show ?thesis
      unfolding normalize_def total_def getTotal_def Let_def by simp
  next
    case 3
    define c where "c = capTraits (scaleTraits (TOTAL_POINTS / total) d)"
    define diff where "diff = TOTAL_POINTS - getTotal c"
    define ts where "ts = sort_key snd (traitEntries c)"
    have n: "normalize d = (if diff \<noteq> 0 then fst (distribute ts diff c) else c)"
      using 3 unfolding normalize_def total_def getTotal_def Let_def c_def diff_def ts_def
      by simp
    show ?thesis
    proof (cases "diff = 0")
      case True
      then show ?thesis using n by (simp add: diff_def)
    next
      case False
      have dist: "distinct (map fst ts)"
      proof -
        have "distinct (map fst (traitEntries c))" by (simp add: traitEntries_def)
        then show ?thesis unfolding ts_def
          by (metis distinct_map distinct_sort set_sort)
      qed
      have vals: "\<forall>t\<in>set ts. getTraitValue c (fst t) \<le> MAX_TRAIT_VALUE"
        unfolding c_def by (simp add: capped_vals)
      have "getTotal c \<le> getTotal d * (TOTAL_POINTS / total) + 7 / 2"
        unfolding c_def using capped_le scaled_le by (rule order_trans)
      then have up: "getTotal c \<le> TOTAL_POINTS + 7 / 2"
        using 3 by (simp add: total_def)
      have "space c ts = 7 * MAX_TRAIT_VALUE - getTotal c"
        unfolding ts_def by (simp add: space_sorted space_entries)
      then have "\<bar>diff\<bar> \<le> space c ts"
        using up unfolding diff_def TOTAL_POINTS_def MAX_TRAIT_VALUE_def by simp
      then have "snd (distribute ts diff c) = 0"
        using distribute_remaining[OF dist vals] by simp
      then have "getTotal (fst (distribute ts diff c)) = getTotal c + diff"
        using distribute_total[of ts diff c] by simp
      then show ?thesis using n False by (simp add: diff_def)
    qed
  qed
qed


lemma new_Dna_total: "getTotal (new_Dna g r b y p bl pu) = TOTAL_POINTS"
  unfolding new_Dna_def by (rule normalize_total)

lemma noRepeat_tl: "noRepeat (a # rs) \<Longrightarrow> noRepeat rs"
  by (cases rs) auto

lemma mutations_returns:
  "noRepeat rs \<Longrightarrow> 3 * n \<le> length rs \<Longrightarrow> mutations n maxChange traits rs \<noteq> None"
proof (induction n arbitrary: traits rs)
  case 0
  then show ?case by simp
next
  case (Suc n)
  then obtain r1 r2 r3 rs3 where rs: "rs = r1 # r2 # r3 # rs3"
    by (cases rs; cases "tl rs"; cases "tl (tl rs)") auto
  have ne: "random_index r2 \<noteq> random_index r1" using Suc.prems(1) rs by auto
  have nr2: "noRepeat (r3 # rs3)" and nr3: "noRepeat rs3"
    using Suc.prems(1) rs noRepeat_tl by auto
  have l2: "3 * n \<le> length (r3 # rs3)" and l3: "3 * n \<le> length rs3"
    using Suc.prems(2) rs by auto
  show ?case
    using Suc.IH[OF nr2 l2] Suc.IH[OF nr3 l3] ne
    by (simp add: rs Let_def)
qed


text \<open>
  C1.  Constructing a trait vector from seven non-negative integers is claimed to give
  seven non-negative integers, none above \<open>MAX_TRAIT_VALUE\<close>, that sum to
  \<open>TOTAL_POINTS\<close>.  The raw values 250, 0, 0, 0, 0, 0, 0 already sum to
  \<open>TOTAL_POINTS\<close>, so \<open>normalize\<close> takes neither branch and the cap is never
  applied: the green trait stays at 250.
\<close>

theorem new_Dna_exceeds_cap:
  "new_Dna 250 0 0 0 0 0 0 =
     \<lparr>green = 250, red = 0, brown = 0, yellow = 0, pink = 0, blue = 0, purple = 0\<rparr>
   \<and> \<not> green (new_Dna 250 0 0 0 0 0 0) \<le> MAX_TRAIT_VALUE"
  by (simp add: new_Dna_def normalize_def TOTAL_POINTS_def MAX_TRAIT_VALUE_def)

text \<open>
  Two more inputs on which the constructor leaves the claimed range: a surplus after
  rounding is taken from the lowest trait, below zero, and the all-zero input is shared
  out in sevenths.
\<close>

lemma new_Dna_negative_trait:
  "new_Dna 0 1 1 1 1 1 1 =
     \<lparr>green = - 2, red = 42, brown = 42, yellow = 42, pink = 42, blue = 42, purple = 42\<rparr>"
  by (simp add: new_Dna_def normalize_def TOTAL_POINTS_def MAX_TRAIT_VALUE_def scaleTraits_def
      capTraits_def math_round_def traitEntries_def Let_def
      math_sign_def)

lemma new_Dna_all_zero:
  "green (new_Dna 0 0 0 0 0 0 0) = 250 / 7 \<and> green (new_Dna 0 0 0 0 0 0 0) \<notin> \<int>"
proof -
  have "(250 / 7 :: real) \<notin> \<int>"
  proof
    assume "(250 / 7 :: real) \<in> \<int>"
    then obtain z :: int where "(250 / 7 :: real) = of_int z" by (auto elim: Ints_cases)
    then have "(250 :: real) = of_int (7 * z)" by simp
    then have "(250 :: int) = 7 * z" by (metis of_int_eq_iff of_int_numeral)
    then show False by presburger
  qed
  then show ?thesis
    by (simp add: new_Dna_def normalize_def TOTAL_POINTS_def MAX_TRAIT_VALUE_def Let_def)
qed

text \<open>
  C8.  For every trait vector \<open>v\<close>, every mutation strength between 0 and 1 and every
  sequence of random draws, a mutated copy that \<open>mutate\<close> returns has traits summing to
  exactly \<open>TOTAL_POINTS\<close>; and \<open>mutate\<close> does return one when at least ten draws are
  supplied of which no two consecutive ones fall on the same trait index.
\<close>

theorem mutate_total:
  assumes "0 \<le> s" and "s \<le> 1" and "\<forall>r\<in>set rs. 0 \<le> r \<and> r < 1"
  shows "(\<forall>v'. mutate v s rs = Some v' \<longrightarrow> getTotal v' = TOTAL_POINTS)
       \<and> (noRepeat rs \<and> 10 \<le> length rs \<longrightarrow> mutate v s rs \<noteq> None)"
proof (intro conjI allI impI)
  fix v' assume "mutate v s rs = Some v'"
  then show "getTotal v' = TOTAL_POINTS"
    by (auto simp: mutate_def Let_def new_Dna_total split: list.splits option.splits)
next
  assume a: "noRepeat rs \<and> 10 \<le> length rs"
  then obtain r rs1 where rs: "rs = r # rs1" by (cases rs) auto
  have r: "0 \<le> r" "r < 1" using assms(3) rs by auto
  then have "\<lfloor>r * 3\<rfloor> < 3" "0 \<le> \<lfloor>r * 3\<rfloor>" by (auto simp: floor_less_iff)
  then have "nat \<lfloor>r * 3\<rfloor> \<le> 2" by linarith
  then have n: "3 * (nat \<lfloor>r * 3\<rfloor> + 1) \<le> length rs1" using a rs by auto
  have "noRepeat rs1" using a rs noRepeat_tl by blast
  from mutations_returns[OF this n] show "mutate v s rs \<noteq> None"
    by (auto simp: mutate_def rs Let_def split: option.splits)
qed


theorem mutate_total_witness:
  "(0::real) \<le> 15 / 100 \<and> (15 / 100 :: real) \<le> 1
   \<and> list_all (\<lambda>r. 0 \<le> r \<and> r < 1) [1/2, 1/7, 3/7, 0, 5/7, 2/7, 6/7, 1/7, 4/7, 0 :: real]
   \<and> noRepeat [1/2, 1/7, 3/7, 0, 5/7, 2/7, 6/7, 1/7, 4/7, 0]
   \<and> 10 \<le> length [1/2, 1/7, 3/7, 0, 5/7, 2/7, 6/7, 1/7, 4/7, 0 :: real]
   \<and> mutate (new_Dna 15 10 15 15 15 15 15) (15 / 100)
         [1/2, 1/7, 3/7, 0, 5/7, 2/7, 6/7, 1/7, 4/7, 0]
       = Some \<lparr>green = 38, red = 21, brown = 70, yellow = 39, pink = 38, blue = 6, purple = 38\<rparr>
   \<and> getTotal \<lparr>green = 38, red = 21, brown = 70, yellow = 39, pink = 38, blue = 6, purple = 38\<rparr>
       = TOTAL_POINTS"
proof -
  let ?rs = "[1/2, 1/7, 3/7, 0, 5/7, 2/7, 6/7, 1/7, 4/7, 0 :: real]"
  have h1: "(0::real) \<le> 15 / 100" and h2: "(15 / 100 :: real) \<le> 1" by simp_all
  have h3: "\<forall>r\<in>set ?rs. 0 \<le> r \<and> r < 1" by simp
  have h4: "noRepeat ?rs \<and> 10 \<le> length ?rs" by (simp add: random_index_def)
  have d: "new_Dna 15 10 15 15 15 15 15 =
      \<lparr>green = 38, red = 22, brown = 38, yellow = 38, pink = 38, blue = 38, purple = 38\<rparr>"
    by (simp add: new_Dna_def normalize_def TOTAL_POINTS_def MAX_TRAIT_VALUE_def scaleTraits_def
        capTraits_def math_round_def traitEntries_def Let_def
        math_sign_def)
  have ev: "mutate (new_Dna 15 10 15 15 15 15 15) (15 / 100) ?rs
      = Some \<lparr>green = 38, red = 21, brown = 70, yellow = 39, pink = 38, blue = 6, purple = 38\<rparr>"
    unfolding d
    by (simp add: mutate_def new_Dna_def normalize_def TOTAL_POINTS_def MAX_TRAIT_VALUE_def
        Let_def math_floor_def random_index_def numeral_2_eq_2)
  from mutate_total [OF h1 h2 h3, of "new_Dna 15 10 15 15 15 15 15"] ev
  have "getTotal \<lparr>green = 38, red = 21, brown = 70, yellow = 39, pink = 38, blue = 6, purple = 38\<rparr>
      = TOTAL_POINTS" by simp
  moreover have "list_all (\<lambda>r. 0 \<le> r \<and> r < 1) ?rs" by simp
  ultimately show ?thesis using h1 h2 h4 ev by blast
qed

section \<open>Properties of the energy wallet\<close>










section \<open>Properties of the energy conversion\<close>







section \<open>Adding and removing cells\<close>

lemma set_update_subset: "set (AList.update k v al) \<subseteq> insert (k, v) (set al)"
  by (induction al) auto

lemma addCell_fields:
  "cells (addCell st c) = AList.update (getPositionKey c) c (cells st)"
  "fungi (addCell st c) = fungi st"
  "nextId (addCell st c) = nextId st"
  "spores (addCell st c) = spores st"
  "garden (addCell st c) = markTile (garden st) (cell_x c) (cell_y c) False"
  by (simp_all add: addCell_def Let_def)

lemma removeCell_fields:
  "cells (removeCell st c) = AList.delete (getPositionKey c) (cells st)"
  "fungi (removeCell st c) = fungi st"
  "nextId (removeCell st c) = nextId st"
  "spores (removeCell st c) = spores st"
  "garden (removeCell st c) = markTile (garden st) (cell_x c) (cell_y c) True"
  by (simp_all add: removeCell_def Let_def)

lemma getTile_markTile:
  "(getTile (markTile g px py e) qx qy = None) = (getTile g qx qy = None)"
  by (simp add: markTile_def getTile_def split: option.splits if_splits)

section \<open>Properties of the parasitism step\<close>






















section \<open>Properties of the spores\<close>

lemma germinate_fungi:
  "fungi (germinateSpore st s)
     = AList.update (nextId st) \<lparr>fungus_id = nextId st, dna = spore_dna s, generation = 0\<rparr> (fungi st)"
  by (simp add: germinateSpore_def new_Fungus_def addCell_fields Let_def)

lemma germinate_tile:
  "(getTile (garden (germinateSpore st s)) qx qy = None) = (getTile (garden st) qx qy = None)"
  by (simp add: germinateSpore_def new_Fungus_def addCell_fields Let_def getTile_markTile)

lemma germinate_cell:
  "getCellAt st qx qy \<noteq> None \<Longrightarrow> getCellAt (germinateSpore st s) qx qy \<noteq> None"
  by (simp add: germinateSpore_def new_Fungus_def addCell_fields Let_def getCellAt_def
      update_conv')

lemma germinate_cell_at:
  "getCellAt (germinateSpore st s) (spore_x s) (spore_y s) \<noteq> None"
  by (simp add: germinateSpore_def new_Fungus_def addCell_fields Let_def getCellAt_def
      update_conv' getPositionKey_def new_Cell_def)


lemma blocked_germinate: "blocked st r \<Longrightarrow> blocked (germinateSpore st s) r"
  unfolding blocked_def using germinate_tile germinate_cell by blast

lemma blocked_aged [simp]: "blocked st (aged dt s) = blocked st s"
  by (simp add: blocked_def aged_def)

lemma sporeLoop_step:
  "sporeLoop st dt (s # ss) rmn =
     (if \<not> blocked st s \<and> 0 < lifetime s - dt
      then sporeLoop (germinateSpore st (aged dt s)) dt ss rmn
      else if 0 < lifetime s - dt then sporeLoop st dt ss (rmn @ [aged dt s])
      else sporeLoop st dt ss rmn)"
  by (simp add: Let_def blocked_def aged_def)

lemma blocked_loop: "blocked st r \<Longrightarrow> blocked (fst (sporeLoop st dt ss rmn)) r"
proof (induction ss arbitrary: st rmn)
  case Nil
  then show ?case by simp
next
  case (Cons s ss)
  then show ?case
    by (simp only: sporeLoop_step split: if_splits) (auto intro: blocked_germinate)
qed









lemma sporeLoop_fungi:
  "\<forall>p\<in>set (fungi (fst (sporeLoop st dt ss rmn))). p \<in> set (fungi st) \<or> generation (snd p) = 0"
proof (induction ss arbitrary: st rmn)
  case Nil
  then show ?case by simp
next
  case (Cons s ss)
  have g: "\<forall>p\<in>set (fungi (fst (sporeLoop (germinateSpore st sp) dt ss rmn))).
      p \<in> set (fungi st) \<or> generation (snd p) = 0" for sp
  proof
    fix p assume "p \<in> set (fungi (fst (sporeLoop (germinateSpore st sp) dt ss rmn)))"
    then have "p \<in> set (fungi (germinateSpore st sp)) \<or> generation (snd p) = 0"
      using Cons.IH by blast
    moreover have "set (fungi (germinateSpore st sp))
        \<subseteq> insert (nextId st, \<lparr>fungus_id = nextId st, dna = spore_dna sp, generation = 0\<rparr>)
            (set (fungi st))"
      unfolding germinate_fungi by (rule set_update_subset)
    ultimately show "p \<in> set (fungi st) \<or> generation (snd p) = 0"
      by auto
  qed
  show ?case using g Cons.IH[of st] by (simp add: Let_def)
qed

lemma rehomeCell_fungi: "fungi (rehomeCell nf c st) = fungi st"
  by (simp add: rehomeCell_def addCell_fields removeCell_fields Let_def)

lemma fold_rehome_fungi: "fungi (fold (rehomeCell nf) grp st) = fungi st"
  by (induction grp arbitrary: st) (simp_all add: rehomeCell_fungi)

lemma rehomeGroup_fungi:
  "fungi (rehomeGroup f grp st)
     = AList.update (nextId st)
         \<lparr>fungus_id = nextId st, dna = clone (dna f), generation = generation f\<rparr> (fungi st)"
  by (simp add: rehomeGroup_def new_Fungus_def Let_def fold_rehome_fungi)

text \<open>
  C10.  Every organism that the spore step adds to the engine has generation 0,
  whatever the generation of the organism that released the spore: \<open>germinateSpore\<close>
  enters the new organism with generation 0.  The generation of an organism is handed
  on only when an organism is split, where the new organism takes the generation of the
  one it is split from.
\<close>

theorem spore_organisms_start_at_generation_zero:
  "(\<forall>p\<in>set (fungi (updateSpores st dt)). p \<in> set (fungi st) \<or> generation (snd p) = 0)
   \<and> map_of (fungi (germinateSpore st s)) (nextId st)
       = Some \<lparr>fungus_id = nextId st, dna = spore_dna s, generation = 0\<rparr>
   \<and> map_of (fungi (rehomeGroup f grp st)) (nextId st)
       = Some \<lparr>fungus_id = nextId st, dna = clone (dna f), generation = generation f\<rparr>"
proof (intro conjI)
  show "\<forall>p\<in>set (fungi (updateSpores st dt)). p \<in> set (fungi st) \<or> generation (snd p) = 0"
    using sporeLoop_fungi[of st dt "spores st" "[]"]
    by (simp add: updateSpores_def split_def Let_def)
  show "map_of (fungi (germinateSpore st s)) (nextId st)
       = Some \<lparr>fungus_id = nextId st, dna = spore_dna s, generation = 0\<rparr>"
    by (simp add: germinate_fungi update_conv')
  show "map_of (fungi (rehomeGroup f grp st)) (nextId st)
       = Some \<lparr>fungus_id = nextId st, dna = clone (dna f), generation = generation f\<rparr>"
    by (simp add: rehomeGroup_fungi update_conv')
qed

theorem spore_organisms_start_at_generation_zero_witness:
  "fungi sporeEngine = [(0, \<lparr>fungus_id = 0, dna = blueDna, generation = 3\<rparr>)]
   \<and> fungi (updateSpores sporeEngine 1) ! 1 \<in> set (fungi (updateSpores sporeEngine 1))
   \<and> fungi (updateSpores sporeEngine 1) ! 1 \<notin> set (fungi sporeEngine)
   \<and> generation (snd (fungi (updateSpores sporeEngine 1) ! 1)) = 0"
proof -
  have f0: "fungi sporeEngine = [(0, \<lparr>fungus_id = 0, dna = blueDna, generation = 3\<rparr>)]"
    by (simp add: sporeEngine_def)
  have ev: "fungi (updateSpores sporeEngine 1)
      = [(0, \<lparr>fungus_id = 0, dna = blueDna, generation = 3\<rparr>),
         (1, \<lparr>fungus_id = 1, dna = redDna, generation = 0\<rparr>)]"
    by (simp add: sporeEngine_def oneCellEngine_def createFungus_def new_SimulationEngine_def
      getTile_def new_Tile_def new_Fungus_def addCell_def Let_def getPositionKey_def new_Cell_def
      markTile_def getCellAt_def updateSpores_def sampleSpore_def germinateSpore_def)
  have m: "fungi (updateSpores sporeEngine 1) ! 1 \<in> set (fungi (updateSpores sporeEngine 1))"
    by (simp add: ev)
  have n: "fungi (updateSpores sporeEngine 1) ! 1 \<notin> set (fungi sporeEngine)"
    by (simp add: ev f0)
  from spore_organisms_start_at_generation_zero[of sporeEngine 1] m n
  have "generation (snd (fungi (updateSpores sporeEngine 1) ! 1)) = 0" by blast
  with f0 m n show ?thesis by blast
qed

section \<open>Properties of the growth pass\<close>


section \<open>Properties of the split\<close>

lemma recreate_position [simp]:
  "getPositionKey (recreateCell nf old) = getPositionKey old"
  "cell_x (recreateCell nf old) = cell_x old"
  "cell_y (recreateCell nf old) = cell_y old"
  by (simp_all add: recreateCell_def new_Cell_def getPositionKey_def startMushroom_def Let_def)

lemma recreate_fungus [simp]: "fungus (recreateCell nf old) = nf"
  by (simp add: recreateCell_def new_Cell_def startMushroom_def Let_def)



lemma recreate_mushroom:
  "hasMushroom (recreateCell nf old) = hasMushroom old"
  "mushroomGrowth (recreateCell nf old) = (if hasMushroom old then mushroomGrowth old else 0)"
  "alive (recreateCell nf old)"
  by (simp_all add: recreateCell_def new_Cell_def startMushroom_def Let_def)







end
